theory Spec2Isabelle
  imports Complex_Main
begin

section \<open>Flood damage assessment: the pipeline of app.py\<close>

text \<open>
  The script app.py is a thin pipeline over the Earth Engine client library: it differences
  two radar composites, thresholds the difference into a self-masked flood mask, overlays the
  mask with three vector collections and sums up a loss table and a flooded area.

  The Earth Engine operators the script calls are library code, not part of the repository.
  Each of them is modelled below from the library's documented behaviour, under the name the
  script calls it by. Pixel values are idealised as real numbers (the library computes in
  floating point); rounding is not represented. Failures of the remote service (quota,
  network, the pixel budget of \<open>1e13\<close>) are outside the model. The name \<open>fmask\<close> stands
  for the script's variable \<open>flood_mask\<close> wherever the mask is an argument.
\<close>

subsection \<open>Rasters\<close>

text \<open>
  An image is sampled on the grid of the reduction scale (100 m in every reduction of the
  script). A pixel either carries a value or is masked (\<open>None\<close>).
\<close>

type_synonym cell = "int \<times> int"

type_synonym image = "cell \<Rightarrow> real option"

text \<open>\<open>Image.subtract\<close>: pixelwise difference; a pixel masked in either input is masked.\<close>

definition subtract :: "image \<Rightarrow> image \<Rightarrow> image" where
  "subtract a b =
     (\<lambda>c. case a c of None \<Rightarrow> None
          | Some x \<Rightarrow> (case b c of None \<Rightarrow> None | Some y \<Rightarrow> Some (x - y)))"

text \<open>\<open>Image.multiply\<close>: pixelwise product; a pixel masked in either input is masked.\<close>

definition multiply :: "image \<Rightarrow> image \<Rightarrow> image" where
  "multiply a b =
     (\<lambda>c. case a c of None \<Rightarrow> None
          | Some x \<Rightarrow> (case b c of None \<Rightarrow> None | Some y \<Rightarrow> Some (x * y)))"

text \<open>\<open>Image.lt\<close> with a constant: 1 where the value is below the constant, 0 elsewhere;
  the mask is kept.\<close>

definition lt :: "image \<Rightarrow> real \<Rightarrow> image" where
  "lt a t = (\<lambda>c. case a c of None \<Rightarrow> None | Some x \<Rightarrow> Some (if x < t then 1 else 0))"

text \<open>\<open>Image.selfMask\<close>: the value of an unmasked pixel becomes its mask, so a pixel of
  value 0 is masked and every other unmasked pixel keeps its value.\<close>

definition selfMask :: "image \<Rightarrow> image" where
  "selfMask a = (\<lambda>c. case a c of None \<Rightarrow> None | Some v \<Rightarrow> if v = 0 then None else Some v)"

text \<open>Lines 57 and 58. The band name given by \<open>rename\<close> only labels the single band, which
  every later \<open>get('flooded')\<close> selects. The literal \<open>-1.5\<close> of line 58 is the argument of
  \<open>flood_mask_at\<close>.\<close>

definition vv_diff :: "image \<Rightarrow> image \<Rightarrow> image" where
  "vv_diff pre_img post_img = subtract pre_img post_img"

definition flood_mask_at :: "real \<Rightarrow> image \<Rightarrow> image \<Rightarrow> image" where
  "flood_mask_at t pre_img post_img = selfMask (lt (vv_diff pre_img post_img) t)"

definition flood_mask :: "image \<Rightarrow> image \<Rightarrow> image" where
  "flood_mask pre_img post_img = flood_mask_at (- 1.5) pre_img post_img"

subsection \<open>Geometries, features and zonal reductions\<close>

text \<open>
  A geometry is represented by what the script reads from it: the grid cells a reduction over
  it visits, each with the weight of the cell inside the geometry, and its centroid as
  (longitude, latitude).
\<close>

record geometry =
  footprint :: "(cell \<times> real) list"
  centroid :: "real \<times> real"

text \<open>A feature carries a geometry and properties; a property set to null is absent.
  Only numeric properties are modelled.\<close>

record feature =
  geom :: geometry
  properties :: "string \<Rightarrow> real option"

definition set_prop :: "feature \<Rightarrow> string \<Rightarrow> real option \<Rightarrow> feature" where
  "set_prop f k v = f\<lparr>properties := (properties f)(k := v)\<rparr>"

datatype reducer = Reducer_max | Reducer_sum

text \<open>The unmasked pixels of an image under a geometry, each with its weight.\<close>

definition samples :: "image \<Rightarrow> geometry \<Rightarrow> (real \<times> real) list" where
  "samples img g =
     List.map_filter (\<lambda>(c, w). map_option (\<lambda>v. (v, w)) (img c)) (footprint g)"

fun max_list :: "real list \<Rightarrow> real option" where
  "max_list [] = None"
| "max_list (x # xs) = (case max_list xs of None \<Rightarrow> Some x | Some m \<Rightarrow> Some (max x m))"

text \<open>\<open>Image.reduceRegion(...).get(band)\<close>: the MAX reducer is unweighted and answers null
  when no unmasked pixel lies under the geometry; the SUM reducer adds up value times weight
  and answers 0 when there is nothing to add.\<close>

definition reduceRegion :: "image \<Rightarrow> reducer \<Rightarrow> geometry \<Rightarrow> real option" where
  "reduceRegion img r g =
     (case r of
        Reducer_max \<Rightarrow> max_list (map fst (samples img g))
      | Reducer_sum \<Rightarrow> Some (sum_list (map (\<lambda>(v, w). v * w) (samples img g))))"

subsection \<open>Asset classification (lines 77 to 109)\<close>

datatype py_error = KeyError string | TypeError

record row =
  Type :: string
  Latitude :: real
  Longitude :: real
  Estimated_Loss_INR :: real

text \<open>The dictionary literal of lines 102 to 107: the three property reads, in the order
  Python evaluates them; a missing key raises.\<close>

definition row_of :: "string \<Rightarrow> feature \<Rightarrow> py_error + row" where
  "row_of name f =
     (case properties f ''lat'' of None \<Rightarrow> Inl (KeyError ''lat'')
      | Some la \<Rightarrow>
     (case properties f ''lon'' of None \<Rightarrow> Inl (KeyError ''lon'')
      | Some lo \<Rightarrow>
     (case properties f ''loss_inr'' of None \<Rightarrow> Inl (KeyError ''loss_inr'')
      | Some l \<Rightarrow>
        Inr \<lparr>Type = name, Latitude = la, Longitude = lo, Estimated_Loss_INR = l\<rparr>)))"

text \<open>The loop of lines 100 to 107, appending one row per fetched feature.\<close>

fun rows_loop :: "string \<Rightarrow> feature list \<Rightarrow> row list \<Rightarrow> py_error + row list" where
  "rows_loop name [] rows = Inr rows"
| "rows_loop name (f # fs) rows =
     (case row_of name f of Inl e \<Rightarrow> Inl e | Inr r \<Rightarrow> rows_loop name fs (rows @ [r]))"

text \<open>The function mapped over the collection in lines 81 to 89: one MAX reduction of the
  mask over the feature's geometry, stored as the property \<open>flooded\<close>.\<close>

definition set_flooded :: "image \<Rightarrow> feature \<Rightarrow> feature" where
  "set_flooded fmask f =
     set_prop f ''flooded'' (reduceRegion fmask Reducer_max (geom f))"

text \<open>The function mapped over the flagged features in lines 94 to 98.\<close>

definition set_coords :: "real \<Rightarrow> feature \<Rightarrow> feature" where
  "set_coords unit_cost f =
     set_prop
       (set_prop
         (set_prop f ''lon'' (Some (fst (centroid (geom f)))))
         ''lat'' (Some (snd (centroid (geom f)))))
       ''loss_inr'' (Some unit_cost)"

text \<open>
  \<open>mark_flooded_assets\<close>. The first component of the result lists the geometries for which
  the function asks for a zonal reduction; the second is what the Python function returns
  (or raises).
\<close>

definition mark_flooded_assets ::
  "feature list \<Rightarrow> image \<Rightarrow> string \<Rightarrow> real \<Rightarrow>
     geometry list \<times> (py_error + feature list \<times> nat \<times> row list)" where
  "mark_flooded_assets fc fmask name unit_cost =
     (if length fc = 0 then ([], Inr (fc, 0, []))
      else
        let flooded = map (set_flooded fmask) fc;
            flooded_only = filter (\<lambda>f. properties f ''flooded'' = Some 1) flooded;
            count = length flooded_only;
            coords = map (set_coords unit_cost) flooded_only
        in (map geom fc,
            case rows_loop name coords [] of
              Inl e \<Rightarrow> Inl e
            | Inr rows \<Rightarrow> Inr (flooded_only, count, rows)))"

subsection \<open>Flooded area (lines 130 to 141)\<close>

text \<open>
  \<open>Dictionary.get\<close> builds a client-side object that stands for the server-side value; it is
  a Python object whatever that value is, and only \<open>getInfo\<close> fetches the value, which may
  be null (Python's \<open>None\<close>).
\<close>

datatype 'a computed = ComputedObject 'a

fun getInfo :: "'a computed \<Rightarrow> 'a" where
  "getInfo (ComputedObject v) = v"

text \<open>Lines 130 to 136: the variable \<open>flood_area\<close> after the assignment. A Python variable
  may hold \<open>None\<close>, hence the outer option.\<close>

definition flood_area_object :: "image \<Rightarrow> image \<Rightarrow> geometry \<Rightarrow> real option computed option" where
  "flood_area_object fmask pixelArea aoi =
     Some (ComputedObject (reduceRegion (multiply fmask pixelArea) Reducer_sum aoi))"

text \<open>Lines 138 to 141: the test is on the Python variable; dividing a fetched \<open>None\<close> by
  \<open>1e6\<close> raises \<open>TypeError\<close>.\<close>

definition flood_area_km2 :: "real option computed option \<Rightarrow> py_error + real" where
  "flood_area_km2 flood_area =
     (case flood_area of
        Some obj \<Rightarrow> (case getInfo obj of None \<Rightarrow> Inl TypeError
                                      | Some s \<Rightarrow> Inr (s / 1000000))
      | None \<Rightarrow> Inr 0)"

subsection \<open>The whole script\<close>

text \<open>
  What the script obtains from outside: the two composites of lines 53 and 54, the pixel-area
  image, the buffered point of line 38, the vectorised built-up layer of line 65, the two
  catalogs of lines 71 and 74, and the intersection test that \<open>filterBounds\<close> evaluates.
\<close>

record inputs =
  pre_img :: image
  post_img :: image
  pixel_area :: "cell \<Rightarrow> real"
  aoi :: geometry
  buildings :: "feature list"
  wdpa_polygons :: "feature list"
  tiger_roads :: "feature list"
  intersects :: "geometry \<Rightarrow> geometry \<Rightarrow> bool"

definition pixelArea :: "inputs \<Rightarrow> image" where
  "pixelArea i = (\<lambda>c. Some (pixel_area i c))"

definition filterBounds :: "inputs \<Rightarrow> feature list \<Rightarrow> geometry \<Rightarrow> feature list" where
  "filterBounds i fc g = filter (\<lambda>f. intersects i (geom f) g) fc"

definition limit :: "feature list \<Rightarrow> nat \<Rightarrow> feature list" where
  "limit fc n = take n fc"

definition hospitals :: "inputs \<Rightarrow> feature list" where
  "hospitals i = limit (filterBounds i (wdpa_polygons i) (aoi i)) 10"

definition roads :: "inputs \<Rightarrow> feature list" where
  "roads i = limit (filterBounds i (tiger_roads i) (aoi i)) 50"

definition building_cost :: real where "building_cost = 500000"
definition road_cost :: real where "road_cost = 1000000"
definition hospital_cost :: real where "hospital_cost = 5000000"

record report =
  flood_area :: real
  b_count :: nat
  r_count :: nat
  h_count :: nat
  total_loss :: real
  all_df :: "row list"

text \<open>Line 122: the sum of the loss column, or 0 for an empty table.\<close>

definition total_loss_of :: "row list \<Rightarrow> real" where
  "total_loss_of df = (if df \<noteq> [] then sum_list (map Estimated_Loss_INR df) else 0)"

text \<open>Lines 116 to 148 in the order the script runs them; the first exception ends the run.\<close>

definition run :: "inputs \<Rightarrow> py_error + report" where
  "run i =
     (let fmask = flood_mask (pre_img i) (post_img i) in
      case snd (mark_flooded_assets (buildings i) fmask ''Building'' building_cost) of
        Inl e \<Rightarrow> Inl e
      | Inr (flooded_buildings, bc, b_df) \<Rightarrow>
      (case snd (mark_flooded_assets (roads i) fmask ''Road'' road_cost) of
        Inl e \<Rightarrow> Inl e
      | Inr (flooded_roads, rc, r_df) \<Rightarrow>
      (case snd (mark_flooded_assets (hospitals i) fmask ''Hospital'' hospital_cost) of
        Inl e \<Rightarrow> Inl e
      | Inr (flooded_hospitals, hc, h_df) \<Rightarrow>
        (let df = b_df @ r_df @ h_df in
         case flood_area_km2 (flood_area_object fmask (pixelArea i) (aoi i)) of
           Inl e \<Rightarrow> Inl e
         | Inr a \<Rightarrow>
             Inr \<lparr>flood_area = a, b_count = bc, r_count = rc, h_count = hc,
                  total_loss = total_loss_of df, all_df = df\<rparr>))))"

subsection \<open>Names for what the pipeline computes\<close>

text \<open>The three definitions below are not functions of the script: they name the values
  that the lemmas about \<open>mark_flooded_assets\<close> and the area computation show it to
  compute.\<close>

definition selected :: "image \<Rightarrow> feature list \<Rightarrow> feature list" where
  "selected fmask fc =
     filter (\<lambda>f. properties f ''flooded'' = Some 1) (map (set_flooded fmask) fc)"

definition mk_row :: "string \<Rightarrow> real \<Rightarrow> feature \<Rightarrow> row" where
  "mk_row name unit_cost f =
     \<lparr>Type = name, Latitude = snd (centroid (geom f)), Longitude = fst (centroid (geom f)),
      Estimated_Loss_INR = unit_cost\<rparr>"

definition area_m2 :: "image \<Rightarrow> (cell \<Rightarrow> real) \<Rightarrow> geometry \<Rightarrow> real" where
  "area_m2 fmask pa g =
     sum_list (map (\<lambda>(c, w). case fmask c of None \<Rightarrow> 0 | Some v \<Rightarrow> v * pa c * w)
                   (footprint g))"

subsection \<open>Concrete inputs\<close>

text \<open>Two footprints of one cell each, and two composites: at cell (0,0) the signal goes
  from -10 to -8, at cell (5,5) from -10 to -9.\<close>

definition g_wet :: geometry where
  "g_wet = \<lparr>footprint = [((0, 0), 1)], centroid = (85.3, 27.5)\<rparr>"

definition g_dry :: geometry where
  "g_dry = \<lparr>footprint = [((5, 5), 1)], centroid = (85.4, 27.6)\<rparr>"

definition asset :: "geometry \<Rightarrow> feature" where
  "asset g = \<lparr>geom = g, properties = (\<lambda>k. None)\<rparr>"

definition example_inputs :: inputs where
  "example_inputs =
     \<lparr>pre_img = map_of [((0, 0), - 10), ((5, 5), - 10)],
      post_img = map_of [((0, 0), - 8), ((5, 5), - 9)],
      pixel_area = (\<lambda>c. 10000),
      aoi = \<lparr>footprint = [((0, 0), 1), ((5, 5), 1)], centroid = (85.3, 27.5)\<rparr>,
      buildings = [asset g_wet, asset g_dry],
      wdpa_polygons = [asset g_wet],
      tiger_roads = [asset g_dry],
      intersects = (\<lambda>g h. True)\<rparr>"

definition example_report :: report where
  "example_report =
     \<lparr>flood_area = 0.01, b_count = 1, r_count = 0, h_count = 1, total_loss = 5500000,
      all_df =
        [\<lparr>Type = ''Building'', Latitude = 27.5, Longitude = 85.3,
          Estimated_Loss_INR = 500000\<rparr>,
         \<lparr>Type = ''Hospital'', Latitude = 27.5, Longitude = 85.3,
          Estimated_Loss_INR = 5000000\<rparr>]\<rparr>"

text \<open>The same run with a post-event composite that does not cover cell (5,5).\<close>

definition mismatch_inputs :: inputs where
  "mismatch_inputs = example_inputs\<lparr>post_img := map_of [((0, 0), - 8)]\<rparr>"

text \<open>The same run with 12 protected areas and 60 road segments in the catalogs, all on
  flooded ground.\<close>

definition crowded_inputs :: inputs where
  "crowded_inputs =
     example_inputs\<lparr>wdpa_polygons := replicate 12 (asset g_wet),
                    tiger_roads := replicate 60 (asset g_wet)\<rparr>"

definition crowded_report :: report where
  "crowded_report =
     \<lparr>flood_area = 0.01, b_count = 1, r_count = 50, h_count = 10, total_loss = 100500000,
      all_df =
        \<lparr>Type = ''Building'', Latitude = 27.5, Longitude = 85.3,
         Estimated_Loss_INR = 500000\<rparr>
        # replicate 50 \<lparr>Type = ''Road'', Latitude = 27.5, Longitude = 85.3,
                        Estimated_Loss_INR = 1000000\<rparr>
        @ replicate 10 \<lparr>Type = ''Hospital'', Latitude = 27.5, Longitude = 85.3,
                        Estimated_Loss_INR = 5000000\<rparr>\<rparr>"

text \<open>The same run with the pre-event composite taken again after the event: no change.\<close>

definition dry_inputs :: inputs where
  "dry_inputs = example_inputs\<lparr>post_img := pre_img example_inputs\<rparr>"

definition dry_report :: report where
  "dry_report =
     \<lparr>flood_area = 0, b_count = 0, r_count = 0, h_count = 0, total_loss = 0, all_df = []\<rparr>"

section \<open>Properties\<close>

subsection \<open>The flood mask, cell by cell\<close>

lemma vv_diff_cell:
  "vv_diff pre post c =
     (case pre c of None \<Rightarrow> None
      | Some x \<Rightarrow> (case post c of None \<Rightarrow> None | Some y \<Rightarrow> Some (x - y)))"
  by (simp add: vv_diff_def subtract_def)

lemma flood_mask_at_cell:
  "flood_mask_at t pre post c =
     (case vv_diff pre post c of None \<Rightarrow> None | Some d \<Rightarrow> if d < t then Some 1 else None)"
  by (simp add: flood_mask_at_def selfMask_def lt_def split: option.splits)

lemma flood_mask_at_value: "flood_mask_at t pre post c = Some v \<Longrightarrow> v = 1"
  by (simp add: flood_mask_at_cell split: option.splits if_splits)

subsection \<open>Zonal reductions\<close>

lemma max_list_None: "(max_list xs = None) = (xs = [])"
  by (cases xs) (simp_all split: option.splits)

lemma max_list_ones: "xs \<noteq> [] \<Longrightarrow> list_all (\<lambda>x. x = 1) xs \<Longrightarrow> max_list xs = Some 1"
proof (induction xs)
  case Nil
  then show ?case by simp
next
  case (Cons x xs)
  show ?case
  proof (cases "xs = []")
    case True
    with Cons.prems show ?thesis by simp
  next
    case False
    with Cons have "max_list xs = Some 1" by simp
    with Cons.prems show ?thesis by simp
  qed
qed

lemma samples_values: "(v, w) \<in> set (samples img g) \<Longrightarrow> \<exists>c. img c = Some v"
  by (fastforce simp: samples_def map_filter_def)

lemma reduce_max_flood_mask:
  "reduceRegion (flood_mask_at t pre post) Reducer_max g =
     (if samples (flood_mask_at t pre post) g = [] then None else Some 1)"
proof (cases "samples (flood_mask_at t pre post) g = []")
  case True
  then show ?thesis by (simp add: reduceRegion_def)
next
  case False
  have "list_all (\<lambda>x. x = 1) (map fst (samples (flood_mask_at t pre post) g))"
    by (auto simp: list_all_iff dest!: samples_values flood_mask_at_value)
  with False show ?thesis
    by (simp add: reduceRegion_def max_list_ones)
qed

lemma sum_list_map_filter:
  "sum_list (map h (List.map_filter f xs)) =
     sum_list (map (\<lambda>x. case f x of None \<Rightarrow> 0 | Some y \<Rightarrow> (h y :: real)) xs)"
  by (induction xs) (simp_all add: map_filter_simps split: option.splits)

lemma reduce_sum_area:
  "reduceRegion (multiply fmask (\<lambda>c. Some (pa c))) Reducer_sum g = Some (area_m2 fmask pa g)"
  unfolding reduceRegion_def samples_def area_m2_def reducer.case sum_list_map_filter
  by (rule arg_cong [where f = Some], rule arg_cong [where f = sum_list], rule map_cong)
     (auto simp: multiply_def split: option.splits)

subsection \<open>The classifier and the run in closed form\<close>

lemma row_of_set_coords: "row_of name (set_coords unit_cost f) = Inr (mk_row name unit_cost f)"
  by (simp add: row_of_def set_coords_def set_prop_def mk_row_def)

lemma rows_loop_set_coords:
  "rows_loop name (map (set_coords unit_cost) fs) rows =
     Inr (rows @ map (mk_row name unit_cost) fs)"
  by (induction fs arbitrary: rows) (simp_all add: row_of_set_coords)

lemma mark_flooded_assets_eq:
  "mark_flooded_assets fc fmask name unit_cost =
     (if fc = [] then [] else map geom fc,
      Inr (selected fmask fc, length (selected fmask fc),
           map (mk_row name unit_cost) (selected fmask fc)))"
  by (simp add: mark_flooded_assets_def Let_def rows_loop_set_coords selected_def)

lemma flood_area_value:
  "flood_area_km2 (flood_area_object fmask (pixelArea i) g) =
     Inr (area_m2 fmask (pixel_area i) g / 1000000)"
  by (simp add: flood_area_km2_def flood_area_object_def pixelArea_def reduce_sum_area)

lemma run_eq:
  "run i =
     (let fmask = flood_mask (pre_img i) (post_img i);
          b = selected fmask (buildings i);
          r = selected fmask (roads i);
          h = selected fmask (hospitals i);
          df = map (mk_row ''Building'' building_cost) b @ map (mk_row ''Road'' road_cost) r
               @ map (mk_row ''Hospital'' hospital_cost) h
      in Inr \<lparr>flood_area = area_m2 fmask (pixel_area i) (aoi i) / 1000000,
              b_count = length b, r_count = length r, h_count = length h,
              total_loss = total_loss_of df, all_df = df\<rparr>)"
  by (simp add: run_def Let_def mark_flooded_assets_eq flood_area_value)

subsection \<open>Change detection\<close>


text \<open>
  Claim C1. For every pair of observations and every threshold, a cell of the change mask is
  1 exactly when both observations are defined there and their difference pre - post is below
  the threshold; every other cell is undefined, and no cell is ever 0. The script's mask is
  the instance at -1.5: a cell with pre = -10.0 and post = -8.0 is 1, a cell with pre = -10.0
  and post = -9.0 is undefined.
\<close>

theorem flood_mask_flags_iff_below_threshold:
  "flood_mask_at t pre post c =
     (case pre c of None \<Rightarrow> None
      | Some x \<Rightarrow> (case post c of None \<Rightarrow> None
                    | Some y \<Rightarrow> if x - y < t then Some 1 else None))
   \<and> ((flood_mask_at t pre post c = Some 1) = (\<exists>d. vv_diff pre post c = Some d \<and> d < t))
   \<and> ((flood_mask_at t pre post c = None) = (\<not> (\<exists>d. vv_diff pre post c = Some d \<and> d < t)))
   \<and> flood_mask_at t pre post c \<noteq> Some 0
   \<and> flood_mask pre post = flood_mask_at (- 1.5) pre post
   \<and> flood_mask [(0, 0) \<mapsto> - 10.0] [(0, 0) \<mapsto> - 8.0] (0, 0) = Some 1
   \<and> flood_mask [(0, 0) \<mapsto> - 10.0] [(0, 0) \<mapsto> - 9.0] (0, 0) = None"
proof -
  have a: "flood_mask_at t pre post c =
     (case pre c of None \<Rightarrow> None
      | Some x \<Rightarrow> (case post c of None \<Rightarrow> None
                    | Some y \<Rightarrow> if x - y < t then Some 1 else None))"
    by (simp add: flood_mask_at_cell vv_diff_cell split: option.splits)
  have b: "(flood_mask_at t pre post c = Some 1) = (\<exists>d. vv_diff pre post c = Some d \<and> d < t)"
    by (simp add: flood_mask_at_cell split: option.splits)
  have c: "(flood_mask_at t pre post c = None) = (\<not> (\<exists>d. vv_diff pre post c = Some d \<and> d < t))"
    by (simp add: flood_mask_at_cell split: option.splits)
  have d: "flood_mask_at t pre post c \<noteq> Some 0"
    using flood_mask_at_value [of t pre post c 0] by auto
  have e: "flood_mask pre post = flood_mask_at (- 1.5) pre post"
    by (simp add: flood_mask_def)
  have f: "flood_mask [(0, 0) \<mapsto> - 10.0] [(0, 0) \<mapsto> - 8.0] (0, 0) = Some 1"
    by (simp add: flood_mask_def flood_mask_at_cell vv_diff_cell)
  have g: "flood_mask [(0, 0) \<mapsto> - 10.0] [(0, 0) \<mapsto> - 9.0] (0, 0) = None"
    by (simp add: flood_mask_def flood_mask_at_cell vv_diff_cell)
  from a b c d e f g show ?thesis by blast
qed

lemma flagged_mono:
  "t2 \<le> t1 \<Longrightarrow> flood_mask_at t2 pre post c = Some 1 \<Longrightarrow> flood_mask_at t1 pre post c = Some 1"
  by (auto simp: flood_mask_at_cell split: option.splits if_splits)

lemma length_filter_mono:
  "(\<And>x. P x \<Longrightarrow> Q x) \<Longrightarrow> length (filter P xs) \<le> length (filter Q xs)"
  by (induction xs) auto

text \<open>
  Claim C6. For fixed observations and thresholds t2 \<le> t1, every cell flagged at t2 is flagged
  at t1, so over any finite list of cells lowering the threshold never raises the number of
  flagged cells.
\<close>

theorem threshold_monotone:
  assumes "t2 \<le> t1"
  shows "{c. flood_mask_at t2 pre post c = Some 1} \<subseteq> {c. flood_mask_at t1 pre post c = Some 1}
         \<and> length (filter (\<lambda>c. flood_mask_at t2 pre post c = Some 1) cs)
             \<le> length (filter (\<lambda>c. flood_mask_at t1 pre post c = Some 1) cs)"
proof
  show "{c. flood_mask_at t2 pre post c = Some 1} \<subseteq> {c. flood_mask_at t1 pre post c = Some 1}"
    using assms by (auto intro: flagged_mono)
  show "length (filter (\<lambda>c. flood_mask_at t2 pre post c = Some 1) cs)
          \<le> length (filter (\<lambda>c. flood_mask_at t1 pre post c = Some 1) cs)"
    using assms by (intro length_filter_mono) (rule flagged_mono)
qed

theorem threshold_monotone_witness:
  "(- 2.5 :: real) \<le> - 1.5
   \<and> length (filter (\<lambda>c. flood_mask_at (- 2.5) (pre_img example_inputs)
                           (post_img example_inputs) c = Some 1) [(0, 0), (5, 5)]) = 0
   \<and> length (filter (\<lambda>c. flood_mask_at (- 1.5) (pre_img example_inputs)
                           (post_img example_inputs) c = Some 1) [(0, 0), (5, 5)]) = 1"
  using threshold_monotone [of "- 2.5" "- 1.5" "pre_img example_inputs" "post_img example_inputs"
      "[(0, 0), (5, 5)]"]
  by (simp add: example_inputs_def flood_mask_at_cell vv_diff_cell)

subsection \<open>Classification\<close>


lemma set_flooded_flag:
  "properties (set_flooded fmask f) ''flooded'' = reduceRegion fmask Reducer_max (geom f)"
  by (simp add: set_flooded_def set_prop_def)

lemma geom_set_flooded: "geom (set_flooded fmask f) = geom f"
  by (simp add: set_flooded_def set_prop_def)

lemma selected_eq:
  "selected fmask fc =
     map (set_flooded fmask) (filter (\<lambda>f. reduceRegion fmask Reducer_max (geom f) = Some 1) fc)"
  by (simp add: selected_def filter_map o_def set_flooded_flag)

lemma mk_row_set_flooded: "mk_row name unit_cost (set_flooded fmask f) = mk_row name unit_cost f"
  by (simp add: mk_row_def geom_set_flooded)

lemma example_max_wet:
  "reduceRegion (flood_mask (pre_img example_inputs) (post_img example_inputs)) Reducer_max g_wet
     = Some 1"
  by (simp add: reduceRegion_def samples_def map_filter_simps g_wet_def example_inputs_def
        flood_mask_def flood_mask_at_cell vv_diff_cell)

lemma example_max_dry:
  "reduceRegion (flood_mask (pre_img example_inputs) (post_img example_inputs)) Reducer_max g_dry
     = None"
  by (simp add: reduceRegion_def samples_def map_filter_simps g_dry_def example_inputs_def
        flood_mask_def flood_mask_at_cell vv_diff_cell)

text \<open>
  Claim C2. For a non-empty collection the classifier returns, in the collection's order,
  exactly the features whose MAX reduction of the mask over their geometry is 1, with their
  number as the count and one row each; a feature whose reduction is absent is not among
  them.
\<close>

theorem classifier_flags_iff_max_is_one:
  assumes "fc \<noteq> []"
  shows "snd (mark_flooded_assets fc fmask name unit_cost) =
           Inr (map (set_flooded fmask)
                  (filter (\<lambda>f. reduceRegion fmask Reducer_max (geom f) = Some 1) fc),
                length (filter (\<lambda>f. reduceRegion fmask Reducer_max (geom f) = Some 1) fc),
                map (mk_row name unit_cost)
                  (filter (\<lambda>f. reduceRegion fmask Reducer_max (geom f) = Some 1) fc))
         \<and> (\<forall>f \<in> set fc.
               (set_flooded fmask f \<in> set (selected fmask fc)) =
               (reduceRegion fmask Reducer_max (geom f) = Some 1))
         \<and> (\<forall>f \<in> set fc. reduceRegion fmask Reducer_max (geom f) = None \<longrightarrow>
               set_flooded fmask f \<notin> set (selected fmask fc))"
proof -
  have a: "snd (mark_flooded_assets fc fmask name unit_cost) =
           Inr (map (set_flooded fmask)
                  (filter (\<lambda>f. reduceRegion fmask Reducer_max (geom f) = Some 1) fc),
                length (filter (\<lambda>f. reduceRegion fmask Reducer_max (geom f) = Some 1) fc),
                map (mk_row name unit_cost)
                  (filter (\<lambda>f. reduceRegion fmask Reducer_max (geom f) = Some 1) fc))"
    by (simp add: mark_flooded_assets_eq selected_eq o_def mk_row_set_flooded)
  have b: "(set_flooded fmask f \<in> set (selected fmask fc)) =
           (reduceRegion fmask Reducer_max (geom f) = Some 1)" if "f \<in> set fc" for f
  proof
    assume "set_flooded fmask f \<in> set (selected fmask fc)"
    then have "properties (set_flooded fmask f) ''flooded'' = Some 1"
      by (simp add: selected_def)
    then show "reduceRegion fmask Reducer_max (geom f) = Some 1"
      by (simp add: set_flooded_flag)
  next
    assume "reduceRegion fmask Reducer_max (geom f) = Some 1"
    with that show "set_flooded fmask f \<in> set (selected fmask fc)"
      by (simp add: selected_eq)
  qed
  from a b show ?thesis by simp
qed

theorem classifier_flags_iff_max_is_one_witness:
  "[asset g_wet, asset g_dry] \<noteq> []
   \<and> snd (mark_flooded_assets [asset g_wet, asset g_dry]
            (flood_mask (pre_img example_inputs) (post_img example_inputs)) ''Building'' 500000)
       = Inr ([set_flooded (flood_mask (pre_img example_inputs) (post_img example_inputs))
                 (asset g_wet)],
              1, [mk_row ''Building'' 500000 (asset g_wet)])"
  using classifier_flags_iff_max_is_one
    [of "[asset g_wet, asset g_dry]"
        "flood_mask (pre_img example_inputs) (post_img example_inputs)" "''Building''" 500000]
  by (simp add: example_max_wet example_max_dry asset_def)

text \<open>
  Claim C5. For the empty collection the classifier returns the count 0 and an empty table
  at once, and asks for no zonal reduction.
\<close>

theorem classifier_empty_collection:
  "mark_flooded_assets [] fmask name unit_cost = ([], Inr ([], 0, []))"
  by (simp add: mark_flooded_assets_def)

text \<open>
  Claim C9. Over any geometry the MAX reduction of the self-masked flood mask is either
  absent or 1, never 0; so the property the filter of line 90 tests equals 1 exactly when the
  reduction is not absent.
\<close>

theorem max_reduction_is_one_or_absent:
  "(reduceRegion (flood_mask pre post) Reducer_max g = None
      \<or> reduceRegion (flood_mask pre post) Reducer_max g = Some 1)
   \<and> reduceRegion (flood_mask pre post) Reducer_max g \<noteq> Some 0
   \<and> ((properties (set_flooded (flood_mask pre post) f) ''flooded'' = Some 1)
        = (reduceRegion (flood_mask pre post) Reducer_max (geom f) \<noteq> None))
   \<and> (reduceRegion (flood_mask_at t pre post) Reducer_max g = None
      \<or> reduceRegion (flood_mask_at t pre post) Reducer_max g = Some 1)"
  by (simp add: flood_mask_def reduce_max_flood_mask set_flooded_flag)

subsection \<open>The runs on the concrete inputs\<close>


lemma geom_asset: "geom (asset g) = g"
  by (simp add: asset_def)

lemma mk_row_asset:
  "mk_row name unit_cost (asset g) =
     \<lparr>Type = name, Latitude = snd (centroid g), Longitude = fst (centroid g),
      Estimated_Loss_INR = unit_cost\<rparr>"
  by (simp add: mk_row_def asset_def)

lemma centroid_g_wet: "centroid g_wet = (85.3, 27.5)"
  by (simp add: g_wet_def)

lemma example_area:
  "area_m2 (flood_mask (pre_img example_inputs) (post_img example_inputs))
     (pixel_area example_inputs) (aoi example_inputs) = 10000"
  by (simp add: area_m2_def example_inputs_def flood_mask_def flood_mask_at_cell vv_diff_cell)

lemma selected_replicate:
  "selected fmask (replicate n f) =
     (if reduceRegion fmask Reducer_max (geom f) = Some 1 then replicate n (set_flooded fmask f) else [])"
  by (simp add: selected_eq)

lemma run_example: "run example_inputs = Inr example_report"
  by (simp add: run_eq Let_def example_inputs_def example_report_def selected_def set_flooded_def
        set_prop_def reduceRegion_def samples_def map_filter_simps flood_mask_def flood_mask_at_cell
        vv_diff_cell hospitals_def roads_def limit_def filterBounds_def asset_def g_wet_def g_dry_def
        mk_row_def area_m2_def total_loss_of_def building_cost_def road_cost_def hospital_cost_def)

lemma run_mismatch: "run mismatch_inputs = Inr example_report"
  by (simp add: run_eq Let_def mismatch_inputs_def example_inputs_def example_report_def selected_def set_flooded_def
        set_prop_def reduceRegion_def samples_def map_filter_simps flood_mask_def flood_mask_at_cell
        vv_diff_cell hospitals_def roads_def limit_def filterBounds_def asset_def g_wet_def g_dry_def
        mk_row_def area_m2_def total_loss_of_def building_cost_def road_cost_def hospital_cost_def)

lemma run_dry: "run dry_inputs = Inr dry_report"
  by (simp add: run_eq Let_def dry_inputs_def example_inputs_def dry_report_def selected_def
        set_flooded_def set_prop_def reduceRegion_def samples_def map_filter_simps flood_mask_def
        flood_mask_at_cell vv_diff_cell hospitals_def roads_def limit_def filterBounds_def asset_def
        g_wet_def g_dry_def area_m2_def total_loss_of_def)

lemma run_crowded: "run crowded_inputs = Inr crowded_report"
proof -
  let ?m = "flood_mask (pre_img example_inputs) (post_img example_inputs)"
  have m: "flood_mask (pre_img crowded_inputs) (post_img crowded_inputs) = ?m"
    by (simp add: crowded_inputs_def)
  have h: "hospitals crowded_inputs = replicate 10 (asset g_wet)"
    by (simp add: hospitals_def limit_def filterBounds_def crowded_inputs_def example_inputs_def)
  have r: "roads crowded_inputs = replicate 50 (asset g_wet)"
    by (simp add: roads_def limit_def filterBounds_def crowded_inputs_def example_inputs_def)
  have b: "buildings crowded_inputs = [asset g_wet, asset g_dry]"
    by (simp add: crowded_inputs_def example_inputs_def)
  have a: "area_m2 ?m (pixel_area crowded_inputs) (aoi crowded_inputs) = 10000"
    using example_area by (simp add: crowded_inputs_def)
  have sb: "map (mk_row ''Building'' building_cost) (selected ?m [asset g_wet, asset g_dry]) =
      [\<lparr>Type = ''Building'', Latitude = 27.5, Longitude = 85.3, Estimated_Loss_INR = 500000\<rparr>]"
    by (simp add: selected_eq geom_asset example_max_wet example_max_dry mk_row_set_flooded
          mk_row_asset centroid_g_wet building_cost_def)
  have sr: "map (mk_row ''Road'' road_cost) (selected ?m (replicate 50 (asset g_wet))) =
      replicate 50 \<lparr>Type = ''Road'', Latitude = 27.5, Longitude = 85.3,
                    Estimated_Loss_INR = 1000000\<rparr>"
    by (simp add: selected_replicate geom_asset example_max_wet mk_row_set_flooded
          mk_row_asset centroid_g_wet road_cost_def)
  have sh: "map (mk_row ''Hospital'' hospital_cost) (selected ?m (replicate 10 (asset g_wet))) =
      replicate 10 \<lparr>Type = ''Hospital'', Latitude = 27.5, Longitude = 85.3,
                    Estimated_Loss_INR = 5000000\<rparr>"
    by (simp add: selected_replicate geom_asset example_max_wet mk_row_set_flooded
          mk_row_asset centroid_g_wet hospital_cost_def)
  have lb: "length (selected ?m [asset g_wet, asset g_dry]) = 1"
    using arg_cong [OF sb, of length] by simp
  have lr: "length (selected ?m (replicate 50 (asset g_wet))) = 50"
    using arg_cong [OF sr, of length] by simp
  have lh: "length (selected ?m (replicate 10 (asset g_wet))) = 10"
    using arg_cong [OF sh, of length] by simp
  show ?thesis
    unfolding run_eq Let_def m h r b a sb sr sh lb lr lh crowded_report_def
    by (simp add: total_loss_of_def sum_list_replicate)
qed

subsection \<open>The report\<close>


lemma filter_Type_mk_row:
  "filter (\<lambda>x. Type x = n) (map (mk_row m c) fs) = (if n = m then map (mk_row m c) fs else [])"
  by (induction fs) (simp_all add: mk_row_def)

lemma total_loss_of_sum: "total_loss_of df = sum_list (map Estimated_Loss_INR df)"
  by (simp add: total_loss_of_def)

lemma length_selected_le: "length (selected fmask fc) \<le> length fc"
  by (simp add: selected_eq)

text \<open>
  Claim C3. In every report a run produces, the count of each asset type is the number of
  rows of that type in the merged table, the three counts add up to the number of rows, and
  the total loss is the sum of the loss column; with no rows the total loss is 0 and the
  table is the empty table.
\<close>

theorem report_counts_and_loss_consistent:
  assumes "run i = Inr r"
  shows "b_count r = length (filter (\<lambda>x. Type x = ''Building'') (all_df r))
       \<and> r_count r = length (filter (\<lambda>x. Type x = ''Road'') (all_df r))
       \<and> h_count r = length (filter (\<lambda>x. Type x = ''Hospital'') (all_df r))
       \<and> b_count r + r_count r + h_count r = length (all_df r)
       \<and> total_loss r = sum_list (map Estimated_Loss_INR (all_df r))
       \<and> (all_df r = [] \<longrightarrow> total_loss r = 0)"
proof -
  from assms have r: "r = (let fmask = flood_mask (pre_img i) (post_img i);
          b = selected fmask (buildings i);
          r = selected fmask (roads i);
          h = selected fmask (hospitals i);
          df = map (mk_row ''Building'' building_cost) b @ map (mk_row ''Road'' road_cost) r
               @ map (mk_row ''Hospital'' hospital_cost) h
      in \<lparr>flood_area = area_m2 fmask (pixel_area i) (aoi i) / 1000000,
              b_count = length b, r_count = length r, h_count = length h,
              total_loss = total_loss_of df, all_df = df\<rparr>)"
    by (simp add: run_eq Let_def)
  show ?thesis
    unfolding r Let_def
    by (simp add: filter_Type_mk_row total_loss_of_sum)
qed

theorem report_counts_and_loss_consistent_witness:
  "run example_inputs = Inr example_report
   \<and> b_count example_report + r_count example_report + h_count example_report
       = length (all_df example_report)
   \<and> h_count example_report
       = length (filter (\<lambda>x. Type x = ''Hospital'') (all_df example_report))
   \<and> total_loss example_report = sum_list (map Estimated_Loss_INR (all_df example_report))
   \<and> run dry_inputs = Inr dry_report
   \<and> all_df dry_report = [] \<and> total_loss dry_report = 0"
  using report_counts_and_loss_consistent [OF run_example]
    report_counts_and_loss_consistent [OF run_dry] run_example run_dry
  by (simp add: dry_report_def)

text \<open>
  Claim C10. Whatever the catalogs hold, at most 10 hospital features and at most 50 road
  features are classified, so the reported hospital and road counts are at most 10 and 50.
\<close>

theorem hospital_and_road_limits:
  "length (hospitals i) \<le> 10 \<and> length (roads i) \<le> 50
   \<and> (\<forall>r. run i = Inr r \<longrightarrow> h_count r \<le> 10 \<and> r_count r \<le> 50)"
proof -
  have h: "length (hospitals i) \<le> 10" by (simp add: hospitals_def limit_def)
  have r: "length (roads i) \<le> 50" by (simp add: roads_def limit_def)
  have "length (selected fmask (hospitals i)) \<le> 10" for fmask
    using length_selected_le [of fmask "hospitals i"] h by linarith
  moreover have "length (selected fmask (roads i)) \<le> 50" for fmask
    using length_selected_le [of fmask "roads i"] r by linarith
  ultimately show ?thesis using h r by (auto simp: run_eq Let_def)
qed

theorem hospital_and_road_limits_witness:
  "length (wdpa_polygons crowded_inputs) = 12 \<and> length (tiger_roads crowded_inputs) = 60
   \<and> length (hospitals crowded_inputs) = 10 \<and> length (roads crowded_inputs) = 50
   \<and> run crowded_inputs = Inr crowded_report
   \<and> h_count crowded_report \<le> 10 \<and> r_count crowded_report \<le> 50"
proof -
  have a: "length (wdpa_polygons crowded_inputs) = 12" "length (tiger_roads crowded_inputs) = 60"
    by (simp_all add: crowded_inputs_def)
  have b: "length (hospitals crowded_inputs) = 10" "length (roads crowded_inputs) = 50"
    by (simp_all add: hospitals_def roads_def limit_def filterBounds_def crowded_inputs_def
          example_inputs_def)
  from hospital_and_road_limits [of crowded_inputs] run_crowded
  have "h_count crowded_report \<le> 10 \<and> r_count crowded_report \<le> 50" by simp
  with a b run_crowded show ?thesis by simp
qed

subsection \<open>The flooded area\<close>



text \<open>
  Claim C7. Two runs that agree on the two composites, the pixel areas and the AOI report the
  same flooded area, whatever their building, road and hospital layers are: the area is a
  function of the mask and the AOI alone.
\<close>

theorem flood_area_independent_of_assets:
  assumes "pre_img i = pre_img j" and "post_img i = post_img j"
    and "pixel_area i = pixel_area j" and "aoi i = aoi j"
  shows "map_sum id flood_area (run i) = map_sum id flood_area (run j)
       \<and> (\<exists>ri rj. run i = Inr ri \<and> run j = Inr rj \<and> flood_area ri = flood_area rj
            \<and> flood_area ri =
                area_m2 (flood_mask (pre_img i) (post_img i)) (pixel_area i) (aoi i) / 1000000)"
  using assms by (simp add: run_eq Let_def)

theorem flood_area_independent_of_assets_witness:
  "pre_img example_inputs = pre_img crowded_inputs
   \<and> post_img example_inputs = post_img crowded_inputs
   \<and> pixel_area example_inputs = pixel_area crowded_inputs
   \<and> aoi example_inputs = aoi crowded_inputs
   \<and> length (tiger_roads example_inputs) = 1 \<and> length (tiger_roads crowded_inputs) = 60
   \<and> run example_inputs = Inr example_report \<and> run crowded_inputs = Inr crowded_report
   \<and> flood_area example_report = flood_area crowded_report"
proof -
  have a: "pre_img example_inputs = pre_img crowded_inputs"
    and b: "post_img example_inputs = post_img crowded_inputs"
    and c: "pixel_area example_inputs = pixel_area crowded_inputs"
    and d: "aoi example_inputs = aoi crowded_inputs"
    by (simp_all add: crowded_inputs_def)
  have e: "length (tiger_roads example_inputs) = 1" "length (tiger_roads crowded_inputs) = 60"
    by (simp_all add: crowded_inputs_def example_inputs_def)
  from flood_area_independent_of_assets [OF a b c d] run_example run_crowded
  have "flood_area example_report = flood_area crowded_report" by simp
  with a b c d e run_example run_crowded show ?thesis by simp
qed

subsection \<open>Observations of different extent\<close>


text \<open>
  Claim C8 as stated fails: a run whose post-event composite lacks a cell that the pre-event
  composite covers is not aborted; it produces a report.
\<close>

theorem extent_mismatch_counterexample:
  "dom (pre_img mismatch_inputs) \<noteq> dom (post_img mismatch_inputs)
   \<and> run mismatch_inputs = Inr example_report"
proof -
  have "(5, 5) \<in> dom (pre_img mismatch_inputs)" "(5, 5) \<notin> dom (post_img mismatch_inputs)"
    by (simp_all add: mismatch_inputs_def example_inputs_def)
  then have "dom (pre_img mismatch_inputs) \<noteq> dom (post_img mismatch_inputs)" by blast
  with run_mismatch show ?thesis by simp
qed

text \<open>
  Claim C8, amended. Change detection has no check of extent and raises nothing: for
  observations of different extent the run still produces a report, and the mask is defined
  only at cells that both observations cover.
\<close>

theorem change_detection_never_rejects:
  assumes "dom (pre_img i) \<noteq> dom (post_img i)"
  shows "(\<exists>r. run i = Inr r)
       \<and> dom (flood_mask (pre_img i) (post_img i)) \<subseteq> dom (pre_img i) \<inter> dom (post_img i)"
  by (auto simp: run_eq Let_def flood_mask_def flood_mask_at_cell vv_diff_cell
      split: option.splits if_splits)

theorem change_detection_never_rejects_witness:
  "dom (pre_img mismatch_inputs) \<noteq> dom (post_img mismatch_inputs)
   \<and> (\<exists>r. run mismatch_inputs = Inr r)
   \<and> dom (flood_mask (pre_img mismatch_inputs) (post_img mismatch_inputs))
       \<subseteq> dom (pre_img mismatch_inputs) \<inter> dom (post_img mismatch_inputs)"
proof -
  have "(5, 5) \<in> dom (pre_img mismatch_inputs)" "(5, 5) \<notin> dom (post_img mismatch_inputs)"
    by (simp_all add: mismatch_inputs_def example_inputs_def)
  then have h: "dom (pre_img mismatch_inputs) \<noteq> dom (post_img mismatch_inputs)" by blast
  from change_detection_never_rejects [OF h] h show ?thesis by simp
qed

end
